theory Spec2Isabelle
  imports Main "HOL-Library.RBT" "HOL-Library.List_Lexorder" "HOL-Library.Char_ord"
begin

section \<open>Text and byte values\<close>

text \<open>
  The client moves text between three C++ types: \<open>QByteArray\<close> (response bodies, raw header
  names and values), \<open>QString\<close> (URLs, the bearer token, the instance headers, the payload
  of the \<open>error\<close> signal) and \<open>std::string\<close> (the message of \<open>NetworkException\<close>).
  A \<open>QByteArray\<close> and a \<open>std::string\<close> are their bytes. A \<open>QString\<close> is represented by the
  UTF-8 encoding of its text, which is what \<open>QString::toStdString\<close> returns, and what
  \<open>QString::toLocal8Bit\<close> returns where the local 8-bit encoding is UTF-8.
\<close>

type_synonym QByteArray = string
type_synonym QString = string
type_synonym std_string = string

definition toLocal8Bit :: "QString \<Rightarrow> QByteArray" where
  "toLocal8Bit s = s"

definition toStdString :: "QString \<Rightarrow> std_string" where
  "toStdString s = s"

definition isEmpty :: "QString \<Rightarrow> bool" where
  "isEmpty s = (s = [])"

subsection \<open>From bytes to a QString\<close>

text \<open>
  The implicit \<open>QString(const QByteArray&)\<close> decodes the bytes as UTF-8
  (\<open>QString::fromUtf8\<close>, Qt 6; the constructor of Qt 5 first cuts the bytes at the first NUL).
  Qt's decoder (\<open>QUtf8::convertToUnicode\<close>) skips a leading byte order mark, reads one
  character at each well-formed sequence and puts U+FFFD in place of a byte that starts no
  well-formed sequence, going on at the byte after it.

  \<open>QUtf8Functions_fromUtf8 b src\<close> looks at the byte \<open>b\<close> and the bytes \<open>src\<close> after it: the
  number of bytes of the character that starts at \<open>b\<close>, or \<open>None\<close> for a decoding error (a
  stray continuation byte, a byte that can start no sequence, a missing or wrong
  continuation byte, an overlong form, a surrogate, a value above U+10FFFF).
\<close>

definition isContinuationByte :: "char \<Rightarrow> bool" where
  "isContinuationByte b = ((of_char b :: nat) div 64 = 2)"

definition QUtf8Functions_fromUtf8 :: "char \<Rightarrow> char list \<Rightarrow> nat option" where
  "QUtf8Functions_fromUtf8 b src =
     (let c = (of_char b :: nat) in
      if c < 0x80 then Some 1
      else if c \<le> 0xC1 then None
      else if 0xF5 \<le> c then None
      else
        (let charsNeeded = (if c < 0xE0 then 2 else if c < 0xF0 then 3 else 4);
             min_uc = (if c < 0xE0 then 0x80 else if c < 0xF0 then 0x800 else 0x10000);
             lead = (if c < 0xE0 then c mod 32 else if c < 0xF0 then c mod 16 else c mod 8);
             continuation = take (charsNeeded - 1) src
         in if length src < charsNeeded - 1 then None
            else if \<not> list_all isContinuationByte continuation then None
            else
              (let uc = foldl (\<lambda>u b. u * 64 + of_char b mod 64) lead continuation
               in if uc < min_uc then None
                  else if (0xD800 \<le> uc \<and> uc < 0xE000) \<or> 0x10FFFF < uc then None
                  else Some charsNeeded)))"

text \<open>U+FFFD and the byte order mark U+FEFF, in UTF-8.\<close>

definition ReplacementCharacter :: QString where
  "ReplacementCharacter = [CHR 0xEF, CHR 0xBF, CHR 0xBD]"

definition utf8bom :: QByteArray where
  "utf8bom = [CHR 0xEF, CHR 0xBB, CHR 0xBF]"

text \<open>
  The decoding loop. The first argument counts the continuation bytes still to copy of
  the character being read; a well-formed sequence is the UTF-8 encoding of its character,
  so the resulting \<open>QString\<close> has the same bytes there.
\<close>

fun QUtf8_convertToUnicode :: "nat \<Rightarrow> char list \<Rightarrow> QString" where
  "QUtf8_convertToUnicode n [] = []"
| "QUtf8_convertToUnicode (Suc n) (b # src) = b # QUtf8_convertToUnicode n src"
| "QUtf8_convertToUnicode 0 (b # src) =
     (case QUtf8Functions_fromUtf8 b src of
        None \<Rightarrow> ReplacementCharacter @ QUtf8_convertToUnicode 0 src
      | Some charsNeeded \<Rightarrow> b # QUtf8_convertToUnicode (charsNeeded - 1) src)"

definition QString_fromByteArray :: "QByteArray \<Rightarrow> QString" where
  "QString_fromByteArray ba =
     QUtf8_convertToUnicode 0 (if take 3 ba = utf8bom then drop 3 ba else ba)"

text \<open>Bytes that are ASCII characters other than NUL.\<close>

definition asciiText :: "QByteArray \<Rightarrow> bool" where
  "asciiText ba = list_all (\<lambda>b. 0 < (of_char b :: nat) \<and> (of_char b :: nat) < 0x80) ba"

section \<open>NetworkException\<close>

record NetworkException =
  statusCode :: int
  message :: std_string

text \<open>The constructor \<open>NetworkException(int statusCode, const QString& message)\<close>.\<close>

definition NetworkException_ctor :: "int \<Rightarrow> QString \<Rightarrow> NetworkException" where
  "NetworkException_ctor code msg = \<lparr>statusCode = code, message = toStdString msg\<rparr>"

definition getStatusCode :: "NetworkException \<Rightarrow> int" where
  "getStatusCode e = statusCode e"

text \<open>
  \<open>what()\<close> returns \<open>message.c_str()\<close>: as a C string, the message up to its first NUL. It
  and \<open>getStatusCode\<close> are the public members of the exception.
\<close>

definition c_str :: "std_string \<Rightarrow> string" where
  "c_str s = takeWhile (\<lambda>b. b \<noteq> CHR 0x00) s"

definition what :: "NetworkException \<Rightarrow> string" where
  "what e = c_str (message e)"

section \<open>Replies of the transport\<close>

text \<open>
  \<open>QNetworkReply::NetworkError\<close> is an enumeration; the client only compares it with
  \<open>NoError\<close>, so a value is kept as its integer code.
\<close>

type_synonym NetworkError = int

abbreviation NoError :: NetworkError where "NoError \<equiv> 0"
abbreviation HostNotFoundError :: NetworkError where "HostNotFoundError \<equiv> 3"
abbreviation ContentNotFoundError :: NetworkError where "ContentNotFoundError \<equiv> 203"

text \<open>
  The value of \<open>reply->attribute(QNetworkRequest::HttpStatusCodeAttribute)\<close>: an invalid
  variant when no HTTP response was received, an integer otherwise. \<open>toInt\<close> of an invalid
  variant is 0.
\<close>

datatype QVariant = Invalid | IntValue int

fun toInt :: "QVariant \<Rightarrow> int" where
  "toInt Invalid = 0"
| "toInt (IntValue n) = n"

text \<open>A reply as the client reads it once its \<open>finished\<close> signal has fired.\<close>

record QNetworkReply =
  replyError :: NetworkError
  readAll :: QByteArray
  httpStatusCodeAttribute :: QVariant

section \<open>Asynchronous completion: the slot onReplyFinished\<close>

text \<open>
  The signals of \<open>HttpClient\<close>: \<open>success(const QByteArray&)\<close> and \<open>error(const QString&)\<close>.
  Emitting a signal appends it to the log of signals the client has emitted.
\<close>

datatype signal = success QByteArray | error QString

definition emit :: "signal \<Rightarrow> signal list \<Rightarrow> signal list" where
  "emit s emitted = emitted @ [s]"

definition onReplyFinished :: "QNetworkReply \<Rightarrow> signal list \<Rightarrow> signal list" where
  "onReplyFinished reply emitted =
     (let requestFailed = (replyError reply \<noteq> NoError);
          responseData = readAll reply;
          statusCode = toInt (httpStatusCodeAttribute reply)
      in if requestFailed \<or> statusCode > 300
         then emit (error (QString_fromByteArray responseData)) emitted
         else emit (success responseData) emitted)"

section \<open>Synchronous completion: waitForResponse\<close>

text \<open>
  \<open>loop.exec()\<close> returns once the reply's \<open>finished\<close> signal fires. The argument is the reply
  as it finishes, or \<open>None\<close> for a reply that never finishes; then the call does not return,
  which is the result \<open>None\<close>. A thrown \<open>NetworkException\<close> is the \<open>Inl\<close> result.
\<close>

definition waitForResponse :: "QNetworkReply option \<Rightarrow> (NetworkException + QByteArray) option" where
  "waitForResponse finished =
     (case finished of
        None \<Rightarrow> None
      | Some reply \<Rightarrow>
          (let requestFailed = (replyError reply \<noteq> NoError);
               responseData = readAll reply;
               statusCode = toInt (httpStatusCodeAttribute reply)
           in if requestFailed \<or> statusCode > 300
              then Some (Inl (NetworkException_ctor statusCode (QString_fromByteArray responseData)))
              else Some (Inr responseData)))"

section \<open>Process-wide configuration\<close>

text \<open>
  The static members: the bearer token (\<open>HttpClient::token\<close>, initially the empty string)
  and the CA certificates of \<open>QSslConfiguration::defaultConfiguration()\<close>. Every client
  instance reads the same values, so they are passed to each operation explicitly.
\<close>

datatype QSslCertificate = QSslCertificate QByteArray

record Globals =
  token :: QString
  caCertificates :: "QSslCertificate list"

definition setBearerToken :: "QString \<Rightarrow> Globals \<Rightarrow> Globals" where
  "setBearerToken jwtToken g = g\<lparr>token := jwtToken\<rparr>"

text \<open>
  \<open>QFile::open(QIODevice::ReadOnly)\<close> on a path: \<open>Inl\<close> with the file's error string when the
  file cannot be opened, \<open>Inr\<close> with what \<open>readAll\<close> then returns otherwise.
\<close>

type_synonym FileSystem = "QString \<Rightarrow> QString + QByteArray"

definition setRootCA :: "FileSystem \<Rightarrow> QString \<Rightarrow> Globals \<Rightarrow> NetworkException + Globals" where
  "setRootCA fs certPath g =
     (case fs certPath of
        Inl errorString \<Rightarrow> Inl (NetworkException_ctor 0 errorString)
      | Inr bytes \<Rightarrow>
          (let certificate = QSslCertificate bytes;
               certs = caCertificates g @ [certificate]
           in Inr (g\<lparr>caCertificates := certs\<rparr>)))"

section \<open>Requests and the transport\<close>

record QNetworkRequest =
  url :: QString
  rawHeaders :: "(QByteArray \<times> QByteArray) list"

text \<open>\<open>QUrl qUrl(url); QNetworkRequest request(qUrl);\<close> gives a request without headers.\<close>

definition QNetworkRequest_ctor :: "QString \<Rightarrow> QNetworkRequest" where
  "QNetworkRequest_ctor u = \<lparr>url = u, rawHeaders = []\<rparr>"

text \<open>
  \<open>QNetworkRequest::setRawHeader\<close> removes every header whose name equals the new name
  ignoring case (\<open>QByteArray::compare\<close> with \<open>Qt::CaseInsensitive\<close>, which folds the letters
  A to Z) and appends the new header.
\<close>

definition toAsciiLower :: "char \<Rightarrow> char" where
  "toAsciiLower c =
     (if (65 :: nat) \<le> of_char c \<and> (of_char c :: nat) \<le> 90 then char_of (of_char c + (32 :: nat)) else c)"

definition compareCaseInsensitive :: "QByteArray \<Rightarrow> QByteArray \<Rightarrow> bool" where
  "compareCaseInsensitive a b = (map toAsciiLower a = map toAsciiLower b)"

definition setRawHeader :: "QByteArray \<Rightarrow> QByteArray \<Rightarrow> QNetworkRequest \<Rightarrow> QNetworkRequest" where
  "setRawHeader headerName headerValue request =
     request\<lparr>rawHeaders :=
       filter (\<lambda>h. \<not> compareCaseInsensitive (fst h) headerName) (rawHeaders request)
         @ [(headerName, headerValue)]\<rparr>"

datatype Operation =
  GetOperation | PostOperation | PutOperation | DeleteOperation | CustomOperation QByteArray

record submission =
  verb :: Operation
  submitted :: QNetworkRequest
  payload :: "QByteArray option"

text \<open>
  The \<open>QNetworkAccessManager\<close> of a client: for a submitted request, the reply as it
  finishes, or \<open>None\<close> when it never finishes.
\<close>

type_synonym QNetworkAccessManager = "submission \<Rightarrow> QNetworkReply option"

definition manager_get :: "QNetworkAccessManager \<Rightarrow> QNetworkRequest \<Rightarrow> QNetworkReply option" where
  "manager_get m req = m \<lparr>verb = GetOperation, submitted = req, payload = None\<rparr>"

definition manager_post ::
  "QNetworkAccessManager \<Rightarrow> QNetworkRequest \<Rightarrow> QByteArray \<Rightarrow> QNetworkReply option" where
  "manager_post m req d = m \<lparr>verb = PostOperation, submitted = req, payload = Some d\<rparr>"

definition manager_put ::
  "QNetworkAccessManager \<Rightarrow> QNetworkRequest \<Rightarrow> QByteArray \<Rightarrow> QNetworkReply option" where
  "manager_put m req d = m \<lparr>verb = PutOperation, submitted = req, payload = Some d\<rparr>"

definition manager_sendCustomRequest ::
  "QNetworkAccessManager \<Rightarrow> QNetworkRequest \<Rightarrow> QByteArray \<Rightarrow> QByteArray \<Rightarrow> QNetworkReply option" where
  "manager_sendCustomRequest m req method d =
     m \<lparr>verb = CustomOperation method, submitted = req, payload = Some d\<rparr>"

definition manager_deleteResource ::
  "QNetworkAccessManager \<Rightarrow> QNetworkRequest \<Rightarrow> QNetworkReply option" where
  "manager_deleteResource m req = m \<lparr>verb = DeleteOperation, submitted = req, payload = None\<rparr>"

section \<open>The client and its headers\<close>

text \<open>
  \<open>QMap<QString, QString>\<close> is a sorted map with unique keys; \<open>QMapIterator\<close> visits its
  entries in ascending key order, as \<open>RBT.entries\<close> lists them.
\<close>

record HttpClient =
  manager :: QNetworkAccessManager
  headers :: "(QString, QString) rbt"

text \<open>The \<open>while (it.hasNext())\<close> loop of \<open>setHeaders\<close>, over the entries still to visit.\<close>

fun setHeaders_loop :: "(QString \<times> QString) list \<Rightarrow> QNetworkRequest \<Rightarrow> QNetworkRequest" where
  "setHeaders_loop [] request = request"
| "setHeaders_loop ((key, val) # rest) request =
     setHeaders_loop rest (setRawHeader (toLocal8Bit key) (toLocal8Bit val) request)"

definition setHeaders :: "HttpClient \<Rightarrow> Globals \<Rightarrow> QNetworkRequest \<Rightarrow> QNetworkRequest" where
  "setHeaders this g request =
     (let request = setHeaders_loop (RBT.entries (headers this)) request
      in if \<not> isEmpty (token g)
         then setRawHeader ''Authorization'' (toLocal8Bit (''Bearer '' @ token g)) request
         else request)"

section \<open>Entry points\<close>

text \<open>
  \<open>connect(reply, &QNetworkReply::finished, this, &HttpClient::onReplyFinished)\<close>: the slot
  runs when the reply finishes. The result is the client's signal log after that.
\<close>

definition connect_onReplyFinished :: "QNetworkReply option \<Rightarrow> signal list \<Rightarrow> signal list" where
  "connect_onReplyFinished finished emitted =
     (case finished of None \<Rightarrow> emitted | Some reply \<Rightarrow> onReplyFinished reply emitted)"

definition get :: "HttpClient \<Rightarrow> Globals \<Rightarrow> QString \<Rightarrow> signal list \<Rightarrow> signal list" where
  "get this g u emitted =
     (let request = setHeaders this g (QNetworkRequest_ctor u);
          reply = manager_get (manager this) request
      in connect_onReplyFinished reply emitted)"

definition post ::
  "HttpClient \<Rightarrow> Globals \<Rightarrow> QString \<Rightarrow> QByteArray \<Rightarrow> signal list \<Rightarrow> signal list" where
  "post this g u d emitted =
     (let request = setHeaders this g (QNetworkRequest_ctor u);
          reply = manager_post (manager this) request d
      in connect_onReplyFinished reply emitted)"

definition put ::
  "HttpClient \<Rightarrow> Globals \<Rightarrow> QString \<Rightarrow> QByteArray \<Rightarrow> signal list \<Rightarrow> signal list" where
  "put this g u d emitted =
     (let request = setHeaders this g (QNetworkRequest_ctor u);
          reply = manager_put (manager this) request d
      in connect_onReplyFinished reply emitted)"

definition patch ::
  "HttpClient \<Rightarrow> Globals \<Rightarrow> QString \<Rightarrow> QByteArray \<Rightarrow> signal list \<Rightarrow> signal list" where
  "patch this g u d emitted =
     (let request = setHeaders this g (QNetworkRequest_ctor u);
          reply = manager_sendCustomRequest (manager this) request ''PATCH'' d
      in connect_onReplyFinished reply emitted)"

definition del :: "HttpClient \<Rightarrow> Globals \<Rightarrow> QString \<Rightarrow> signal list \<Rightarrow> signal list" where
  "del this g u emitted =
     (let request = setHeaders this g (QNetworkRequest_ctor u);
          reply = manager_deleteResource (manager this) request
      in connect_onReplyFinished reply emitted)"

definition get_sync ::
  "HttpClient \<Rightarrow> Globals \<Rightarrow> QString \<Rightarrow> (NetworkException + QByteArray) option" where
  "get_sync this g u =
     (let request = setHeaders this g (QNetworkRequest_ctor u);
          reply = manager_get (manager this) request
      in waitForResponse reply)"

definition post_sync ::
  "HttpClient \<Rightarrow> Globals \<Rightarrow> QString \<Rightarrow> QByteArray \<Rightarrow> (NetworkException + QByteArray) option" where
  "post_sync this g u d =
     (let request = setHeaders this g (QNetworkRequest_ctor u);
          reply = manager_post (manager this) request d
      in waitForResponse reply)"

definition put_sync ::
  "HttpClient \<Rightarrow> Globals \<Rightarrow> QString \<Rightarrow> QByteArray \<Rightarrow> (NetworkException + QByteArray) option" where
  "put_sync this g u d =
     (let request = setHeaders this g (QNetworkRequest_ctor u);
          reply = manager_put (manager this) request d
      in waitForResponse reply)"

definition patch_sync ::
  "HttpClient \<Rightarrow> Globals \<Rightarrow> QString \<Rightarrow> QByteArray \<Rightarrow> (NetworkException + QByteArray) option" where
  "patch_sync this g u d =
     (let request = setHeaders this g (QNetworkRequest_ctor u);
          reply = manager_sendCustomRequest (manager this) request ''PATCH'' d
      in waitForResponse reply)"

definition del_sync ::
  "HttpClient \<Rightarrow> Globals \<Rightarrow> QString \<Rightarrow> (NetworkException + QByteArray) option" where
  "del_sync this g u =
     (let request = setHeaders this g (QNetworkRequest_ctor u);
          reply = manager_deleteResource (manager this) request
      in waitForResponse reply)"

text \<open>
  The member functions httpclient.cpp defines for each HTTP method. The class declaration
  in httpclient.hpp also declares and documents \<open>head\<close> and \<open>head_sync\<close>; httpclient.cpp
  has no definition of either, so \<open>HEAD\<close> has no entry. An entry takes the URL and the
  body; \<open>get\<close> and \<open>del\<close> take no body.
\<close>

datatype Method = GET | HEAD | POST | PUT | PATCH | DELETE

type_synonym async_entry_point =
  "HttpClient \<Rightarrow> Globals \<Rightarrow> QString \<Rightarrow> QByteArray \<Rightarrow> signal list \<Rightarrow> signal list"

type_synonym sync_entry_point =
  "HttpClient \<Rightarrow> Globals \<Rightarrow> QString \<Rightarrow> QByteArray \<Rightarrow> (NetworkException + QByteArray) option"

fun async_entry :: "Method \<Rightarrow> async_entry_point option" where
  "async_entry GET = Some (\<lambda>this g u d. get this g u)"
| "async_entry HEAD = None"
| "async_entry POST = Some post"
| "async_entry PUT = Some put"
| "async_entry PATCH = Some patch"
| "async_entry DELETE = Some (\<lambda>this g u d. del this g u)"

fun sync_entry :: "Method \<Rightarrow> sync_entry_point option" where
  "sync_entry GET = Some (\<lambda>this g u d. get_sync this g u)"
| "sync_entry HEAD = None"
| "sync_entry POST = Some post_sync"
| "sync_entry PUT = Some put_sync"
| "sync_entry PATCH = Some patch_sync"
| "sync_entry DELETE = Some (\<lambda>this g u d. del_sync this g u)"

section \<open>Outcome classification\<close>

text \<open>
  C1. For a completed request whose transport reports no error and whose HTTP status is
  \<open>s\<close>: the synchronous call returns the body exactly when \<open>s \<le> 300\<close> and throws exactly
  when \<open>s > 300\<close>; the asynchronous handler emits \<open>success\<close> exactly when \<open>s \<le> 300\<close> and
  \<open>error\<close> exactly when \<open>s > 300\<close>.
\<close>

theorem status_threshold_classification:
  assumes "replyError reply = NoError"
    and "httpStatusCodeAttribute reply = IntValue s"
  shows "(waitForResponse (Some reply) = Some (Inr (readAll reply)) \<longleftrightarrow> s \<le> 300)
       \<and> ((\<exists>e. waitForResponse (Some reply) = Some (Inl e)) \<longleftrightarrow> s > 300)
       \<and> (onReplyFinished reply emitted = emitted @ [success (readAll reply)] \<longleftrightarrow> s \<le> 300)
       \<and> ((\<exists>m. onReplyFinished reply emitted = emitted @ [error m]) \<longleftrightarrow> s > 300)"
  using assms by (auto simp: waitForResponse_def onReplyFinished_def emit_def Let_def)

text \<open>Status 300 with no transport error is a success and status 301 a failure, on both paths.\<close>

theorem status_threshold_classification_witness:
  "replyError \<lparr>replyError = NoError, readAll = ''ok'', httpStatusCodeAttribute = IntValue 300\<rparr> = NoError
   \<and> httpStatusCodeAttribute \<lparr>replyError = NoError, readAll = ''ok'', httpStatusCodeAttribute = IntValue 300\<rparr>
       = IntValue 300
   \<and> waitForResponse (Some \<lparr>replyError = NoError, readAll = ''ok'', httpStatusCodeAttribute = IntValue 300\<rparr>)
       = Some (Inr ''ok'')
   \<and> onReplyFinished \<lparr>replyError = NoError, readAll = ''ok'', httpStatusCodeAttribute = IntValue 300\<rparr> []
       = [success ''ok'']
   \<and> replyError \<lparr>replyError = NoError, readAll = ''moved'', httpStatusCodeAttribute = IntValue 301\<rparr> = NoError
   \<and> httpStatusCodeAttribute \<lparr>replyError = NoError, readAll = ''moved'', httpStatusCodeAttribute = IntValue 301\<rparr>
       = IntValue 301
   \<and> (\<exists>e. waitForResponse (Some \<lparr>replyError = NoError, readAll = ''moved'', httpStatusCodeAttribute = IntValue 301\<rparr>)
       = Some (Inl e))
   \<and> (\<exists>m. onReplyFinished \<lparr>replyError = NoError, readAll = ''moved'', httpStatusCodeAttribute = IntValue 301\<rparr> []
       = [error m])"
proof -
  let ?r300 = "\<lparr>replyError = NoError, readAll = ''ok'', httpStatusCodeAttribute = IntValue 300\<rparr>"
  let ?r301 = "\<lparr>replyError = NoError, readAll = ''moved'', httpStatusCodeAttribute = IntValue 301\<rparr>"
  have h300: "replyError ?r300 = NoError" "httpStatusCodeAttribute ?r300 = IntValue 300"
    by simp_all
  have h301: "replyError ?r301 = NoError" "httpStatusCodeAttribute ?r301 = IntValue 301"
    by simp_all
  from status_threshold_classification [OF h300, of "[]"]
       status_threshold_classification [OF h301, of "[]"]
  show ?thesis by simp
qed

section \<open>Decoding of ASCII text and of an ill-formed byte\<close>

text \<open>
  Bytes that are ASCII characters decode to themselves, and a message of such characters
  other than NUL is its own C string. The byte \<open>0xFF\<close> starts no UTF-8 sequence and decodes
  to U+FFFD.
\<close>

lemma convertToUnicode_ascii:
  "list_all (\<lambda>b. (of_char b :: nat) < 0x80) src \<Longrightarrow> QUtf8_convertToUnicode 0 src = src"
  by (induction src) (simp_all add: QUtf8Functions_fromUtf8_def)

lemma asciiText_no_bom: "asciiText ba \<Longrightarrow> take 3 ba \<noteq> utf8bom"
  by (cases ba) (auto simp: asciiText_def utf8bom_def)

lemma fromByteArray_asciiText: "asciiText ba \<Longrightarrow> QString_fromByteArray ba = ba"
proof -
  assume a: "asciiText ba"
  then have "list_all (\<lambda>b. (of_char b :: nat) < 0x80) ba"
    by (simp add: asciiText_def list_all_iff)
  with a show ?thesis
    by (simp add: QString_fromByteArray_def asciiText_no_bom convertToUnicode_ascii)
qed

lemma c_str_asciiText: "asciiText s \<Longrightarrow> c_str s = s"
  by (auto simp: c_str_def asciiText_def list_all_iff takeWhile_eq_all_conv)

lemma replacement_for_FF: "QString_fromByteArray [CHR 0xFF] = [CHR 0xEF, CHR 0xBF, CHR 0xBD]"
  by code_simp

section \<open>Transport errors\<close>

text \<open>
  C2, as the code has it. When the transport reports an error, the asynchronous handler
  emits \<open>error\<close> and the synchronous call throws, whatever the HTTP status is. The thrown
  exception carries the status read from the reply, which is 0 when the reply has no HTTP
  status attribute. The \<open>error\<close> signal carries the decoded body and no status: replies with
  a transport error and the same body emit the same signal.
\<close>

theorem transport_error_is_failure:
  assumes "replyError reply \<noteq> NoError"
  shows "onReplyFinished reply emitted = emitted @ [error (QString_fromByteArray (readAll reply))]
       \<and> (\<exists>e. waitForResponse (Some reply) = Some (Inl e)
              \<and> getStatusCode e = toInt (httpStatusCodeAttribute reply))
       \<and> (httpStatusCodeAttribute reply = Invalid \<longrightarrow>
            (\<exists>e. waitForResponse (Some reply) = Some (Inl e) \<and> getStatusCode e = 0))
       \<and> (\<forall>reply'. replyError reply' \<noteq> NoError \<and> readAll reply' = readAll reply \<longrightarrow>
            onReplyFinished reply' emitted = onReplyFinished reply emitted)"
  using assms
  by (simp add: waitForResponse_def onReplyFinished_def emit_def NetworkException_ctor_def
      getStatusCode_def)

theorem transport_error_is_failure_witness:
  "replyError \<lparr>replyError = HostNotFoundError, readAll = [], httpStatusCodeAttribute = Invalid\<rparr> \<noteq> NoError
   \<and> httpStatusCodeAttribute \<lparr>replyError = HostNotFoundError, readAll = [], httpStatusCodeAttribute = Invalid\<rparr> = Invalid
   \<and> onReplyFinished \<lparr>replyError = HostNotFoundError, readAll = [], httpStatusCodeAttribute = Invalid\<rparr> []
       = [error []]
   \<and> (\<exists>e. waitForResponse (Some \<lparr>replyError = HostNotFoundError, readAll = [], httpStatusCodeAttribute = Invalid\<rparr>)
       = Some (Inl e) \<and> getStatusCode e = 0)
   \<and> replyError \<lparr>replyError = ContentNotFoundError, readAll = [], httpStatusCodeAttribute = IntValue 404\<rparr> \<noteq> NoError
   \<and> onReplyFinished \<lparr>replyError = ContentNotFoundError, readAll = [], httpStatusCodeAttribute = IntValue 404\<rparr> []
       = onReplyFinished \<lparr>replyError = HostNotFoundError, readAll = [], httpStatusCodeAttribute = Invalid\<rparr> []"
proof -
  let ?r0 = "\<lparr>replyError = HostNotFoundError, readAll = [], httpStatusCodeAttribute = Invalid\<rparr>"
  let ?r404 = "\<lparr>replyError = ContentNotFoundError, readAll = [], httpStatusCodeAttribute = IntValue 404\<rparr>"
  have failed: "replyError ?r0 \<noteq> NoError" by simp
  have failed404: "replyError ?r404 \<noteq> NoError" by simp
  have absent: "httpStatusCodeAttribute ?r0 = Invalid" by simp
  note at0 = transport_error_is_failure [OF failed, of "[]"]
  from at0 have a: "onReplyFinished ?r0 [] = [] @ [error (QString_fromByteArray (readAll ?r0))]"
    by (elim conjE)
  have empty: "QString_fromByteArray [] = []"
    by (simp add: QString_fromByteArray_def utf8bom_def)
  from at0 absent have b: "\<exists>e. waitForResponse (Some ?r0) = Some (Inl e) \<and> getStatusCode e = 0"
    by blast
  from at0 have "\<forall>reply'. replyError reply' \<noteq> NoError \<and> readAll reply' = readAll ?r0 \<longrightarrow>
            onReplyFinished reply' [] = onReplyFinished ?r0 []"
    by (elim conjE)
  from this [rule_format, of ?r404] have c: "onReplyFinished ?r404 [] = onReplyFinished ?r0 []"
    by simp
  from a b c empty show ?thesis by simp
qed

text \<open>
  C2, as the specification states it (status 0 carried on the asynchronous failure path too),
  fails: a reply without HTTP status and a reply with status 404 emit the same signal
  \<open>error\<close> with the empty text and nothing else, while the exceptions of the synchronous
  path carry 0 and 404.
\<close>

theorem async_failure_signal_has_no_status:
  "onReplyFinished \<lparr>replyError = HostNotFoundError, readAll = [], httpStatusCodeAttribute = Invalid\<rparr> []
       = [error []]
   \<and> onReplyFinished \<lparr>replyError = ContentNotFoundError, readAll = [], httpStatusCodeAttribute = IntValue 404\<rparr> []
       = [error []]
   \<and> waitForResponse (Some \<lparr>replyError = HostNotFoundError, readAll = [], httpStatusCodeAttribute = Invalid\<rparr>)
       = Some (Inl \<lparr>statusCode = 0, message = []\<rparr>)
   \<and> waitForResponse (Some \<lparr>replyError = ContentNotFoundError, readAll = [], httpStatusCodeAttribute = IntValue 404\<rparr>)
       = Some (Inl \<lparr>statusCode = 404, message = []\<rparr>)"
  by (simp add: onReplyFinished_def waitForResponse_def emit_def NetworkException_ctor_def
      toStdString_def QString_fromByteArray_def utf8bom_def)

section \<open>Delivery of the outcome\<close>

text \<open>
  C3, as the code has it. A synchronous call that completes either returns the response
  body (no transport error and status at most 300) or throws a \<open>NetworkException\<close>
  (otherwise). The exception exposes the status read from the reply and, through \<open>what()\<close>,
  the C string of the body decoded as UTF-8; for a body of ASCII characters other than NUL
  that is the body itself.
\<close>

theorem sync_returns_body_or_throws:
  "\<exists>res. waitForResponse (Some reply) = Some res \<and>
     (case res of
        Inr body \<Rightarrow> body = readAll reply
          \<and> replyError reply = NoError \<and> toInt (httpStatusCodeAttribute reply) \<le> 300
      | Inl e \<Rightarrow> getStatusCode e = toInt (httpStatusCodeAttribute reply)
          \<and> what e = c_str (QString_fromByteArray (readAll reply))
          \<and> (asciiText (readAll reply) \<longrightarrow> what e = readAll reply)
          \<and> \<not> (replyError reply = NoError \<and> toInt (httpStatusCodeAttribute reply) \<le> 300))"
  by (auto simp: waitForResponse_def NetworkException_ctor_def toStdString_def what_def
      getStatusCode_def Let_def fromByteArray_asciiText c_str_asciiText)

theorem sync_returns_body_or_throws_witness:
  "asciiText ''not found''
   \<and> (\<exists>e. waitForResponse
       (Some \<lparr>replyError = ContentNotFoundError, readAll = ''not found'',
               httpStatusCodeAttribute = IntValue 404\<rparr>) = Some (Inl e)
        \<and> getStatusCode e = 404 \<and> what e = ''not found'')"
proof -
  let ?r = "\<lparr>replyError = ContentNotFoundError, readAll = ''not found'',
               httpStatusCodeAttribute = IntValue 404\<rparr>"
  have ascii: "asciiText ''not found''" by code_simp
  from sync_returns_body_or_throws [of ?r]
  obtain res where res: "waitForResponse (Some ?r) = Some res"
    and cases: "case res of
        Inr body \<Rightarrow> body = readAll ?r
          \<and> replyError ?r = NoError \<and> toInt (httpStatusCodeAttribute ?r) \<le> 300
      | Inl e \<Rightarrow> getStatusCode e = toInt (httpStatusCodeAttribute ?r)
          \<and> what e = c_str (QString_fromByteArray (readAll ?r))
          \<and> (asciiText (readAll ?r) \<longrightarrow> what e = readAll ?r)
          \<and> \<not> (replyError ?r = NoError \<and> toInt (httpStatusCodeAttribute ?r) \<le> 300)"
    by blast
  from cases ascii have "\<exists>e. res = Inl e \<and> getStatusCode e = 404 \<and> what e = ''not found''"
    by (cases res) auto
  with res ascii show ?thesis by auto
qed

text \<open>
  C3, as the specification states it (the error exposes the response body), fails for a body
  that is not UTF-8 text: for the one-byte body \<open>0xFF\<close> the message is the UTF-8 form of
  U+FFFD, the three bytes \<open>EF BF BD\<close>.
\<close>

theorem sync_error_message_is_decoded_body:
  "waitForResponse (Some \<lparr>replyError = NoError, readAll = [CHR 0xFF], httpStatusCodeAttribute = IntValue 500\<rparr>)
     = Some (Inl \<lparr>statusCode = 500, message = [CHR 0xEF, CHR 0xBF, CHR 0xBD]\<rparr>)
   \<and> what \<lparr>statusCode = 500, message = [CHR 0xEF, CHR 0xBF, CHR 0xBD]\<rparr> = [CHR 0xEF, CHR 0xBF, CHR 0xBD]
   \<and> what \<lparr>statusCode = 500, message = [CHR 0xEF, CHR 0xBF, CHR 0xBD]\<rparr> \<noteq> [CHR 0xFF]"
  by (simp add: waitForResponse_def NetworkException_ctor_def toStdString_def what_def c_str_def
      replacement_for_FF)

text \<open>
  C4. One run of the completion handler emits exactly one signal, \<open>success\<close> with the body or
  \<open>error\<close> with the decoded body. Every asynchronous entry point submits one request with
  the merged headers and connects the handler to its reply: when the reply finishes the
  client's log of emitted signals grows by exactly that one signal, and it stays as it is
  when the reply never finishes.
\<close>

theorem exactly_one_signal:
  assumes "async_entry m = Some f"
  shows "(\<exists>s. onReplyFinished reply emitted = emitted @ [s]
            \<and> (s = success (readAll reply) \<or> s = error (QString_fromByteArray (readAll reply))))
       \<and> (\<exists>sub. submitted sub = setHeaders this g (QNetworkRequest_ctor u)
            \<and> (case manager this sub of
                  None \<Rightarrow> f this g u d emitted = emitted
                | Some finished \<Rightarrow>
                    (\<exists>s. f this g u d emitted = emitted @ [s]
                       \<and> (s = success (readAll finished)
                            \<or> s = error (QString_fromByteArray (readAll finished))))))"
proof -
  have handler: "\<exists>s. onReplyFinished r emitted = emitted @ [s]
      \<and> (s = success (readAll r) \<or> s = error (QString_fromByteArray (readAll r)))" for r
    by (simp add: onReplyFinished_def emit_def Let_def)
  have connected: "case finished of
        None \<Rightarrow> connect_onReplyFinished finished emitted = emitted
      | Some r \<Rightarrow> (\<exists>s. connect_onReplyFinished finished emitted = emitted @ [s]
            \<and> (s = success (readAll r) \<or> s = error (QString_fromByteArray (readAll r))))"
    for finished
    using handler by (cases finished) (simp_all add: connect_onReplyFinished_def)
  have entry: "\<exists>sub. submitted sub = setHeaders this g (QNetworkRequest_ctor u)
      \<and> f this g u d emitted = connect_onReplyFinished (manager this sub) emitted"
  proof (cases m)
    case GET
    with assms have "f = (\<lambda>this g u d. get this g u)" by simp
    then show ?thesis
      by (auto simp: get_def manager_get_def
          intro!: exI [of _ "\<lparr>verb = GetOperation,
            submitted = setHeaders this g (QNetworkRequest_ctor u), payload = None\<rparr>"])
  next
    case HEAD
    with assms show ?thesis by simp
  next
    case POST
    with assms have "f = post" by simp
    then show ?thesis
      by (auto simp: post_def manager_post_def
          intro!: exI [of _ "\<lparr>verb = PostOperation,
            submitted = setHeaders this g (QNetworkRequest_ctor u), payload = Some d\<rparr>"])
  next
    case PUT
    with assms have "f = put" by simp
    then show ?thesis
      by (auto simp: put_def manager_put_def
          intro!: exI [of _ "\<lparr>verb = PutOperation,
            submitted = setHeaders this g (QNetworkRequest_ctor u), payload = Some d\<rparr>"])
  next
    case PATCH
    with assms have "f = patch" by simp
    then show ?thesis
      by (auto simp: patch_def manager_sendCustomRequest_def
          intro!: exI [of _ "\<lparr>verb = CustomOperation ''PATCH'',
            submitted = setHeaders this g (QNetworkRequest_ctor u), payload = Some d\<rparr>"])
  next
    case DELETE
    with assms have "f = (\<lambda>this g u d. del this g u)" by simp
    then show ?thesis
      by (auto simp: del_def manager_deleteResource_def
          intro!: exI [of _ "\<lparr>verb = DeleteOperation,
            submitted = setHeaders this g (QNetworkRequest_ctor u), payload = None\<rparr>"])
  qed
  then obtain sub where sub: "submitted sub = setHeaders this g (QNetworkRequest_ctor u)"
    and run: "f this g u d emitted = connect_onReplyFinished (manager this sub) emitted"
    by blast
  from connected [of "manager this sub"] run
  have "case manager this sub of
          None \<Rightarrow> f this g u d emitted = emitted
        | Some finished \<Rightarrow>
            (\<exists>s. f this g u d emitted = emitted @ [s]
               \<and> (s = success (readAll finished)
                    \<or> s = error (QString_fromByteArray (readAll finished))))"
    by (simp split: option.splits)
  with sub handler [of reply] show ?thesis by blast
qed

theorem exactly_one_signal_witness:
  "async_entry POST = Some post
   \<and> (\<exists>s. post
        \<lparr>manager = (\<lambda>sub. Some \<lparr>replyError = NoError, readAll = ''created'',
                                 httpStatusCodeAttribute = IntValue 201\<rparr>),
          headers = RBT.empty\<rparr>
        \<lparr>token = [], caCertificates = []\<rparr> ''http://example.com/items'' ''x=1'' [error ''earlier'']
          = [error ''earlier''] @ [s]
        \<and> (s = success ''created'' \<or> s = error (QString_fromByteArray ''created'')))"
proof -
  let ?r = "\<lparr>replyError = NoError, readAll = ''created'', httpStatusCodeAttribute = IntValue 201\<rparr>"
  let ?client = "\<lparr>manager = (\<lambda>sub. Some ?r), headers = RBT.empty\<rparr>"
  let ?g = "\<lparr>token = [], caCertificates = []\<rparr>"
  have entry: "async_entry POST = Some post" by simp
  from exactly_one_signal [OF entry, of ?r "[error ''earlier'']" ?client ?g
      "''http://example.com/items''" "''x=1''"]
  have "\<exists>s. post ?client ?g ''http://example.com/items'' ''x=1'' [error ''earlier'']
          = [error ''earlier''] @ [s]
        \<and> (s = success ''created'' \<or> s = error (QString_fromByteArray ''created''))"
    by simp
  with entry show ?thesis by simp
qed

section \<open>Header injection\<close>



lemma names_setHeaders_loop:
  "fst ` set (rawHeaders (setHeaders_loop es r)) \<subseteq> fst ` set (rawHeaders r) \<union> fst ` set es"
proof (induction es arbitrary: r)
  case Nil
  then show ?case by simp
next
  case (Cons e es)
  obtain k v where e: "e = (k, v)" by (cases e)
  have "fst ` set (rawHeaders (setRawHeader k v r)) \<subseteq> fst ` set (rawHeaders r) \<union> {k}"
    by (auto simp: setRawHeader_def)
  with Cons.IH [of "setRawHeader k v r"] show ?case
    by (auto simp: e toLocal8Bit_def)
qed




text \<open>
  C6, as the code has it. With an empty bearer token \<open>setHeaders\<close> is the loop over the
  instance headers alone: every header name of a fresh request is an instance header name,
  so the request has no \<open>Authorization\<close> header when the instance headers have none.
\<close>

theorem empty_token_adds_no_header:
  assumes "isEmpty (token g)"
  shows "setHeaders this g request = setHeaders_loop (RBT.entries (headers this)) request
       \<and> fst ` set (rawHeaders (setHeaders this g (QNetworkRequest_ctor u)))
            \<subseteq> set (RBT.keys (headers this))
       \<and> ((\<forall>k \<in> set (RBT.keys (headers this)). \<not> compareCaseInsensitive k ''Authorization'') \<longrightarrow>
            (\<forall>h \<in> set (rawHeaders (setHeaders this g (QNetworkRequest_ctor u))).
               \<not> compareCaseInsensitive (fst h) ''Authorization''))"
proof -
  have steps: "setHeaders this g request = setHeaders_loop (RBT.entries (headers this)) request"
    for request
    using assms by (simp add: setHeaders_def)
  have names: "fst ` set (rawHeaders (setHeaders this g (QNetworkRequest_ctor u)))
      \<subseteq> set (RBT.keys (headers this))"
    using names_setHeaders_loop [of "RBT.entries (headers this)" "QNetworkRequest_ctor u"]
    by (simp add: steps QNetworkRequest_ctor_def RBT.keys_def_alt)
  from names show ?thesis
    by (auto simp: steps [of request])
qed

theorem empty_token_adds_no_header_witness:
  "isEmpty (token \<lparr>token = [], caCertificates = []\<rparr>)
   \<and> list_all (\<lambda>k. \<not> compareCaseInsensitive k ''Authorization'')
        (RBT.keys (RBT.insert ''Accept'' ''application/json'' RBT.empty))
   \<and> list_all (\<lambda>h. \<not> compareCaseInsensitive (fst h) ''Authorization'')
        (rawHeaders (setHeaders
          \<lparr>manager = (\<lambda>s. None), headers = RBT.insert ''Accept'' ''application/json'' RBT.empty\<rparr>
          \<lparr>token = [], caCertificates = []\<rparr>
          (QNetworkRequest_ctor ''http://example.com/'')))"
proof -
  let ?g = "\<lparr>token = [], caCertificates = []\<rparr>"
  let ?client = "\<lparr>manager = (\<lambda>s. None),
                 headers = RBT.insert ''Accept'' ''application/json'' RBT.empty\<rparr>"
  have empty: "isEmpty (token ?g)"
    by (simp add: isEmpty_def)
  have none: "list_all (\<lambda>k. \<not> compareCaseInsensitive k ''Authorization'')
      (RBT.keys (RBT.insert ''Accept'' ''application/json'' RBT.empty))"
    by code_simp
  from empty_token_adds_no_header
         [OF empty, of ?client "QNetworkRequest_ctor ''http://example.com/''" "''http://example.com/''"]
  have "(\<forall>k \<in> set (RBT.keys (headers ?client)). \<not> compareCaseInsensitive k ''Authorization'') \<longrightarrow>
        (\<forall>h \<in> set (rawHeaders (setHeaders ?client ?g (QNetworkRequest_ctor ''http://example.com/''))).
           \<not> compareCaseInsensitive (fst h) ''Authorization'')"
    by (elim conjE)
  with none have "list_all (\<lambda>h. \<not> compareCaseInsensitive (fst h) ''Authorization'')
        (rawHeaders (setHeaders ?client ?g (QNetworkRequest_ctor ''http://example.com/'')))"
    by (simp add: list_all_iff)
  with empty none show ?thesis by simp
qed

text \<open>
  C6, as the specification states it (no \<open>Authorization\<close> header whenever the token is
  empty), fails for an instance whose own headers contain \<open>Authorization\<close>: the loop over
  the instance headers sets it on the request, and nothing removes it.
\<close>

theorem empty_token_keeps_instance_authorization:
  "isEmpty (token \<lparr>token = [], caCertificates = []\<rparr>)
   \<and> rawHeaders (setHeaders
         \<lparr>manager = (\<lambda>s. None), headers = RBT.insert ''Authorization'' ''Basic dXNlcjpwYXNz'' RBT.empty\<rparr>
         \<lparr>token = [], caCertificates = []\<rparr>
         (QNetworkRequest_ctor ''http://example.com/''))
     = [(''Authorization'', ''Basic dXNlcjpwYXNz'')]"
  by code_simp

section \<open>Payload of the asynchronous signals\<close>

text \<open>
  C7, as the code has it. On failure the handler emits \<open>error\<close> with the response body
  decoded as UTF-8 into a \<open>QString\<close>, the same text the synchronous path puts into the
  message of its exception; for a body of ASCII characters other than NUL that is the body
  itself. On success it emits \<open>success\<close> with the response body. The \<open>error\<close> signal has no
  status: two failed replies with the same body and any status produce the same signal.
\<close>

theorem async_payload_is_body:
  "((replyError reply \<noteq> NoError \<or> toInt (httpStatusCodeAttribute reply) > 300) \<longrightarrow>
       onReplyFinished reply emitted = emitted @ [error (QString_fromByteArray (readAll reply))]
     \<and> (\<exists>e. waitForResponse (Some reply) = Some (Inl e)
            \<and> message e = QString_fromByteArray (readAll reply)))
   \<and> ((replyError reply \<noteq> NoError \<or> toInt (httpStatusCodeAttribute reply) > 300)
        \<and> asciiText (readAll reply) \<longrightarrow>
       onReplyFinished reply emitted = emitted @ [error (readAll reply)])
   \<and> (\<not> (replyError reply \<noteq> NoError \<or> toInt (httpStatusCodeAttribute reply) > 300) \<longrightarrow>
       onReplyFinished reply emitted = emitted @ [success (readAll reply)])
   \<and> (\<forall>reply'. (replyError reply \<noteq> NoError \<or> toInt (httpStatusCodeAttribute reply) > 300)
         \<and> (replyError reply' \<noteq> NoError \<or> toInt (httpStatusCodeAttribute reply') > 300)
         \<and> readAll reply' = readAll reply \<longrightarrow>
       onReplyFinished reply' emitted = onReplyFinished reply emitted)"
  by (auto simp: onReplyFinished_def waitForResponse_def emit_def NetworkException_ctor_def
      toStdString_def Let_def fromByteArray_asciiText)

theorem async_payload_is_body_witness:
  "toInt (httpStatusCodeAttribute
      \<lparr>replyError = NoError, readAll = ''not found'', httpStatusCodeAttribute = IntValue 404\<rparr>) > 300
   \<and> asciiText ''not found''
   \<and> onReplyFinished
        \<lparr>replyError = NoError, readAll = ''not found'', httpStatusCodeAttribute = IntValue 404\<rparr> []
      = [error ''not found'']
   \<and> (\<exists>e. waitForResponse
        (Some \<lparr>replyError = NoError, readAll = ''not found'', httpStatusCodeAttribute = IntValue 404\<rparr>)
          = Some (Inl e) \<and> message e = ''not found'')
   \<and> replyError \<lparr>replyError = NoError, readAll = ''ok'', httpStatusCodeAttribute = IntValue 200\<rparr> = NoError
   \<and> toInt (httpStatusCodeAttribute
      \<lparr>replyError = NoError, readAll = ''ok'', httpStatusCodeAttribute = IntValue 200\<rparr>) \<le> 300
   \<and> onReplyFinished
        \<lparr>replyError = NoError, readAll = ''ok'', httpStatusCodeAttribute = IntValue 200\<rparr> []
      = [success ''ok'']
   \<and> replyError \<lparr>replyError = HostNotFoundError, readAll = ''not found'', httpStatusCodeAttribute = Invalid\<rparr>
      \<noteq> NoError
   \<and> onReplyFinished
        \<lparr>replyError = HostNotFoundError, readAll = ''not found'', httpStatusCodeAttribute = Invalid\<rparr> []
      = onReplyFinished
        \<lparr>replyError = NoError, readAll = ''not found'', httpStatusCodeAttribute = IntValue 404\<rparr> []"
proof -
  let ?r404 = "\<lparr>replyError = NoError, readAll = ''not found'', httpStatusCodeAttribute = IntValue 404\<rparr>"
  let ?r200 = "\<lparr>replyError = NoError, readAll = ''ok'', httpStatusCodeAttribute = IntValue 200\<rparr>"
  let ?r0 = "\<lparr>replyError = HostNotFoundError, readAll = ''not found'', httpStatusCodeAttribute = Invalid\<rparr>"
  have failed404: "replyError ?r404 \<noteq> NoError \<or> toInt (httpStatusCodeAttribute ?r404) > 300"
    by simp
  have failed0: "replyError ?r0 \<noteq> NoError \<or> toInt (httpStatusCodeAttribute ?r0) > 300"
    by simp
  have ok200: "\<not> (replyError ?r200 \<noteq> NoError \<or> toInt (httpStatusCodeAttribute ?r200) > 300)"
    by simp
  have ascii: "asciiText ''not found''"
    by code_simp
  have decoded: "QString_fromByteArray ''not found'' = ''not found''"
    by (rule fromByteArray_asciiText [OF ascii])
  note at404 = async_payload_is_body [of ?r404 "[]"]
  note at200 = async_payload_is_body [of ?r200 "[]"]
  have ascii404: "asciiText (readAll ?r404)"
    using ascii by simp
  from at404 [THEN conjunct2, THEN conjunct1, rule_format, OF conjI, OF failed404 ascii404]
  have a: "onReplyFinished ?r404 [] = [] @ [error (readAll ?r404)]" .
  from at404 [THEN conjunct1, rule_format, OF failed404, THEN conjunct2]
  have b: "\<exists>e. waitForResponse (Some ?r404) = Some (Inl e)
      \<and> message e = QString_fromByteArray (readAll ?r404)" .
  from at200 [THEN conjunct2, THEN conjunct2, THEN conjunct1, rule_format, OF ok200]
  have c: "onReplyFinished ?r200 [] = [] @ [success (readAll ?r200)]" .
  from at404 have "\<forall>reply'. (replyError ?r404 \<noteq> NoError \<or> toInt (httpStatusCodeAttribute ?r404) > 300)
         \<and> (replyError reply' \<noteq> NoError \<or> toInt (httpStatusCodeAttribute reply') > 300)
         \<and> readAll reply' = readAll ?r404 \<longrightarrow>
       onReplyFinished reply' [] = onReplyFinished ?r404 []"
    by (elim conjE)
  from this [rule_format, of ?r0] failed404 failed0
  have d: "onReplyFinished ?r0 [] = onReplyFinished ?r404 []"
    by simp
  from a have a': "onReplyFinished ?r404 [] = [error ''not found'']"
    by simp
  from b obtain e where e: "waitForResponse (Some ?r404) = Some (Inl e)"
    and "message e = QString_fromByteArray (readAll ?r404)"
    by blast
  then have "message e = QString_fromByteArray ''not found''"
    by simp
  with decoded have "message e = ''not found''"
    by (simp only:)
  with e have b': "\<exists>e. waitForResponse (Some ?r404) = Some (Inl e) \<and> message e = ''not found''"
    by blast
  from c have c': "onReplyFinished ?r200 [] = [success ''ok'']"
    by simp
  have hyps: "toInt (httpStatusCodeAttribute ?r404) > 300" "replyError ?r200 = NoError"
    "toInt (httpStatusCodeAttribute ?r200) \<le> 300" "replyError ?r0 \<noteq> NoError"
    by simp_all
  from hyps ascii a' b' c' d show ?thesis
    by (intro conjI)
qed

text \<open>
  C7, as the specification states it (the failure payload equals the raw body bytes), fails
  for a body that is not UTF-8 text: for the one-byte body \<open>0xFF\<close> the payload is the
  one-character string U+FFFD, in UTF-8 the three bytes \<open>EF BF BD\<close>.
\<close>

theorem async_error_payload_is_decoded_body:
  "onReplyFinished
      \<lparr>replyError = NoError, readAll = [CHR 0xFF], httpStatusCodeAttribute = IntValue 500\<rparr> []
     = [error [CHR 0xEF, CHR 0xBF, CHR 0xBD]]
   \<and> onReplyFinished
      \<lparr>replyError = NoError, readAll = [CHR 0xFF], httpStatusCodeAttribute = IntValue 500\<rparr> []
     \<noteq> [error [CHR 0xFF]]"
  by (simp add: onReplyFinished_def emit_def replacement_for_FF)

section \<open>Entry points per HTTP method\<close>

text \<open>
  Each entry point httpclient.cpp defines builds a request for the URL, sets the merged
  headers on it and hands it to the manager with the operation of its method.
\<close>

lemma defined_entry_points_submit:
  "get this g u emitted = connect_onReplyFinished
     (manager this \<lparr>verb = GetOperation, submitted = setHeaders this g (QNetworkRequest_ctor u),
                     payload = None\<rparr>) emitted"
  "post this g u d emitted = connect_onReplyFinished
     (manager this \<lparr>verb = PostOperation, submitted = setHeaders this g (QNetworkRequest_ctor u),
                     payload = Some d\<rparr>) emitted"
  "put this g u d emitted = connect_onReplyFinished
     (manager this \<lparr>verb = PutOperation, submitted = setHeaders this g (QNetworkRequest_ctor u),
                     payload = Some d\<rparr>) emitted"
  "patch this g u d emitted = connect_onReplyFinished
     (manager this \<lparr>verb = CustomOperation ''PATCH'',
                     submitted = setHeaders this g (QNetworkRequest_ctor u), payload = Some d\<rparr>) emitted"
  "del this g u emitted = connect_onReplyFinished
     (manager this \<lparr>verb = DeleteOperation, submitted = setHeaders this g (QNetworkRequest_ctor u),
                     payload = None\<rparr>) emitted"
  "get_sync this g u = waitForResponse
     (manager this \<lparr>verb = GetOperation, submitted = setHeaders this g (QNetworkRequest_ctor u),
                     payload = None\<rparr>)"
  "post_sync this g u d = waitForResponse
     (manager this \<lparr>verb = PostOperation, submitted = setHeaders this g (QNetworkRequest_ctor u),
                     payload = Some d\<rparr>)"
  "put_sync this g u d = waitForResponse
     (manager this \<lparr>verb = PutOperation, submitted = setHeaders this g (QNetworkRequest_ctor u),
                     payload = Some d\<rparr>)"
  "patch_sync this g u d = waitForResponse
     (manager this \<lparr>verb = CustomOperation ''PATCH'',
                     submitted = setHeaders this g (QNetworkRequest_ctor u), payload = Some d\<rparr>)"
  "del_sync this g u = waitForResponse
     (manager this \<lparr>verb = DeleteOperation, submitted = setHeaders this g (QNetworkRequest_ctor u),
                     payload = None\<rparr>)"
  by (simp_all add: get_def post_def put_def patch_def del_def get_sync_def post_sync_def
      put_sync_def patch_sync_def del_sync_def manager_get_def manager_post_def manager_put_def
      manager_sendCustomRequest_def manager_deleteResource_def)

lemma defined_entry_points:
  "m \<noteq> HEAD \<Longrightarrow> async_entry m \<noteq> None \<and> sync_entry m \<noteq> None"
  by (cases m) simp_all

text \<open>
  C8. Of the six HTTP methods, \<open>HEAD\<close> is the one without entry points: \<open>head\<close> and
  \<open>head_sync\<close> are declared in the class, and no definition of either exists to build or
  submit a request. \<open>GET\<close>, \<open>POST\<close>, \<open>PUT\<close>, \<open>PATCH\<close> and \<open>DELETE\<close> have both an
  asynchronous and a synchronous entry point.
\<close>

theorem head_has_no_entry_point:
  "async_entry HEAD = None \<and> sync_entry HEAD = None
   \<and> filter (\<lambda>m. async_entry m = None \<or> sync_entry m = None) [GET, HEAD, POST, PUT, PATCH, DELETE]
       = [HEAD]"
  by simp

section \<open>Root certificates\<close>

text \<open>
  C9. \<open>setRootCA\<close> throws exactly when the certificate file cannot be opened for reading;
  the exception is the result of the call itself, with status code 0 and the file's error
  string as message. When the file opens, the certificate made of its bytes is appended to
  the CA certificates of the default TLS configuration.
\<close>

theorem setRootCA_fails_iff_unreadable:
  "((\<exists>e. setRootCA fs certPath g = Inl e) \<longleftrightarrow> (\<exists>errorString. fs certPath = Inl errorString))
   \<and> (\<forall>errorString. fs certPath = Inl errorString \<longrightarrow>
        (\<exists>e. setRootCA fs certPath g = Inl e \<and> getStatusCode e = 0 \<and> message e = errorString))
   \<and> (\<forall>bytes. fs certPath = Inr bytes \<longrightarrow>
        setRootCA fs certPath g
          = Inr (g\<lparr>caCertificates := caCertificates g @ [QSslCertificate bytes]\<rparr>))"
  by (auto simp: setRootCA_def NetworkException_ctor_def toStdString_def getStatusCode_def
      split: sum.splits)


theorem setRootCA_fails_iff_unreadable_witness:
  "(\<lambda>p. if p = ''ca.pem'' then Inr ''PEM'' else Inl ''No such file or directory'') ''missing.pem''
     = (Inl ''No such file or directory'' :: QString + QByteArray)
   \<and> (\<exists>e. setRootCA (\<lambda>p. if p = ''ca.pem'' then Inr ''PEM'' else Inl ''No such file or directory'')
            ''missing.pem'' \<lparr>token = [], caCertificates = []\<rparr> = Inl e
          \<and> getStatusCode e = 0 \<and> message e = ''No such file or directory'')
   \<and> (\<lambda>p. if p = ''ca.pem'' then Inr ''PEM'' else Inl ''No such file or directory'') ''ca.pem''
     = (Inr ''PEM'' :: QString + QByteArray)
   \<and> setRootCA (\<lambda>p. if p = ''ca.pem'' then Inr ''PEM'' else Inl ''No such file or directory'')
        ''ca.pem'' \<lparr>token = [], caCertificates = []\<rparr>
      = Inr \<lparr>token = [], caCertificates = [QSslCertificate ''PEM'']\<rparr>"
proof -
  let ?fs = "\<lambda>p. if p = ''ca.pem'' then Inr ''PEM'' else Inl ''No such file or directory''
               :: QString + QByteArray"
  let ?g = "\<lparr>token = [], caCertificates = []\<rparr>"
  have missing: "?fs ''missing.pem'' = Inl ''No such file or directory''"
    by simp
  have present: "?fs ''ca.pem'' = Inr ''PEM''"
    by simp
  from setRootCA_fails_iff_unreadable [of ?fs "''missing.pem''" ?g]
  have "\<forall>errorString. ?fs ''missing.pem'' = Inl errorString \<longrightarrow>
        (\<exists>e. setRootCA ?fs ''missing.pem'' ?g = Inl e \<and> getStatusCode e = 0 \<and> message e = errorString)"
    by (elim conjE)
  from this [rule_format, OF missing]
  have a: "\<exists>e. setRootCA ?fs ''missing.pem'' ?g = Inl e \<and> getStatusCode e = 0
             \<and> message e = ''No such file or directory''" .
  from setRootCA_fails_iff_unreadable [of ?fs "''ca.pem''" ?g]
  have "\<forall>bytes. ?fs ''ca.pem'' = Inr bytes \<longrightarrow>
        setRootCA ?fs ''ca.pem'' ?g = Inr (?g\<lparr>caCertificates := caCertificates ?g @ [QSslCertificate bytes]\<rparr>)"
    by (elim conjE)
  from this [rule_format, OF present]
  have b: "setRootCA ?fs ''ca.pem'' ?g = Inr \<lparr>token = [], caCertificates = [QSslCertificate ''PEM'']\<rparr>"
    by simp
  from a b missing present show ?thesis by simp
qed

section \<open>Replies without a status\<close>

text \<open>
  C10. The classification is a function of the transport error flag and of the comparison
  of the status with 300 only. A reply with no transport error whose status attribute is
  absent or 0 is therefore a success: the synchronous call returns the body and the
  handler emits \<open>success\<close> with it.
\<close>

theorem absent_status_is_success:
  "(replyError reply = NoError
      \<and> (httpStatusCodeAttribute reply = Invalid \<or> httpStatusCodeAttribute reply = IntValue 0) \<longrightarrow>
       waitForResponse (Some reply) = Some (Inr (readAll reply))
     \<and> onReplyFinished reply emitted = emitted @ [success (readAll reply)])
   \<and> ((replyError reply = NoError \<longleftrightarrow> replyError reply' = NoError)
      \<and> (toInt (httpStatusCodeAttribute reply) > 300 \<longleftrightarrow> toInt (httpStatusCodeAttribute reply') > 300) \<longrightarrow>
       ((\<exists>e. waitForResponse (Some reply) = Some (Inl e)) \<longleftrightarrow>
        (\<exists>e. waitForResponse (Some reply') = Some (Inl e)))
     \<and> ((\<exists>m. onReplyFinished reply emitted = emitted @ [error m]) \<longleftrightarrow>
        (\<exists>m. onReplyFinished reply' emitted = emitted @ [error m])))"
  by (auto simp: onReplyFinished_def waitForResponse_def emit_def Let_def)


theorem absent_status_is_success_witness:
  "replyError \<lparr>replyError = NoError, readAll = ''partial'', httpStatusCodeAttribute = Invalid\<rparr> = NoError
   \<and> httpStatusCodeAttribute \<lparr>replyError = NoError, readAll = ''partial'', httpStatusCodeAttribute = Invalid\<rparr>
       = Invalid
   \<and> waitForResponse (Some \<lparr>replyError = NoError, readAll = ''partial'', httpStatusCodeAttribute = Invalid\<rparr>)
       = Some (Inr ''partial'')
   \<and> onReplyFinished \<lparr>replyError = NoError, readAll = ''partial'', httpStatusCodeAttribute = Invalid\<rparr> []
       = [success ''partial'']
   \<and> ((\<exists>e. waitForResponse
          (Some \<lparr>replyError = NoError, readAll = ''partial'', httpStatusCodeAttribute = Invalid\<rparr>)
            = Some (Inl e)) \<longleftrightarrow>
       (\<exists>e. waitForResponse
          (Some \<lparr>replyError = NoError, readAll = ''ok'', httpStatusCodeAttribute = IntValue 200\<rparr>)
            = Some (Inl e)))"
proof -
  let ?r = "\<lparr>replyError = NoError, readAll = ''partial'', httpStatusCodeAttribute = Invalid\<rparr>"
  let ?r' = "\<lparr>replyError = NoError, readAll = ''ok'', httpStatusCodeAttribute = IntValue 200\<rparr>"
  note inst = absent_status_is_success [of ?r "[]" ?r']
  have absent: "replyError ?r = NoError
      \<and> (httpStatusCodeAttribute ?r = Invalid \<or> httpStatusCodeAttribute ?r = IntValue 0)"
    by simp
  have alike: "(replyError ?r = NoError \<longleftrightarrow> replyError ?r' = NoError)
      \<and> (toInt (httpStatusCodeAttribute ?r) > 300 \<longleftrightarrow> toInt (httpStatusCodeAttribute ?r') > 300)"
    by simp
  from inst absent
  have a: "waitForResponse (Some ?r) = Some (Inr (readAll ?r))
     \<and> onReplyFinished ?r [] = [] @ [success (readAll ?r)]"
    by blast
  from inst alike
  have b: "(\<exists>e. waitForResponse (Some ?r) = Some (Inl e)) \<longleftrightarrow>
        (\<exists>e. waitForResponse (Some ?r') = Some (Inl e))"
    by blast
  from a b show ?thesis by simp
qed

end
